theory Spec2Isabelle
  imports Complex_Main "HOL-Library.Word"
begin

section \<open>Mi Flora poller: data model\<close>

text \<open>
  The embedding follows \<^verbatim>\<open>miflora/miflora_poller.py\<close>. A \<^verbatim>\<open>bytearray\<close> is a list of
  8-bit words, read as Python integers with \<open>uint\<close>. A \<^verbatim>\<open>datetime\<close> is an integer count
  of microseconds (the resolution of \<^verbatim>\<open>datetime\<close>), a \<^verbatim>\<open>timedelta\<close> a difference of
  two such counts. Python's \<^verbatim>\<open>None\<close> is \<open>None\<close> of an option type.
\<close>

type_synonym byte = "8 word"
type_synonym bytes = "byte list"
type_synonym time = int

definition seconds :: "int \<Rightarrow> time" where
  "seconds n = n * 1000000"

definition hours :: "int \<Rightarrow> time" where
  "hours n = seconds (n * 3600)"

definition MI_TEMPERATURE :: string where "MI_TEMPERATURE = ''temperature''"
definition MI_LIGHT :: string where "MI_LIGHT = ''light''"
definition MI_MOISTURE :: string where "MI_MOISTURE = ''moisture''"
definition MI_CONDUCTIVITY :: string where "MI_CONDUCTIVITY = ''conductivity''"
definition MI_BATTERY :: string where "MI_BATTERY = ''battery''"

text \<open>
  The exceptions a call can leave with. \<open>IOError\<close> carries the two arguments the
  source raises it with: the message and the device address.
\<close>

datatype error =
    IOError string string
  | IndexError
  | TypeError
  | KeyError string
  | AttributeError

text \<open>The values a reading holds: \<^verbatim>\<open>float\<close> for the temperature, \<^verbatim>\<open>int\<close> otherwise.\<close>

datatype pyval = PyFloat real | PyInt int

subsection \<open>The transport\<close>

text \<open>
  One session is what the body of a \<^verbatim>\<open>try\<close> does: start the adapter, connect to the
  address, operate on the characteristics, stop the adapter. The library behind it
  (\<^verbatim>\<open>pygatt\<close>) is outside the repository, so the transport is a parameter: it gives, for
  the \<open>k\<close>-th session opened since the start, the address and the operation asked, the
  bytes read (\<open>None\<close> when any step of the session raises) and the time the session
  took. The world holds the clock and the number of sessions opened so far.
\<close>

datatype request =
    CharRead nat
  | WriteThenRead nat bytes nat

type_synonym transport = "nat \<Rightarrow> string \<Rightarrow> request \<Rightarrow> bytes option \<times> time"

record world =
  clock :: time
  sessions :: nat

definition after_session :: "transport \<Rightarrow> string \<Rightarrow> request \<Rightarrow> world \<Rightarrow> world" where
  "after_session tr m rq w =
     w\<lparr>clock := clock w + snd (tr (sessions w) m rq), sessions := Suc (sessions w)\<rparr>"

subsection \<open>The retrying primitives\<close>

text \<open>
  The inner \<^verbatim>\<open>while True\<close> of \<^verbatim>\<open>read_ble\<close> and \<^verbatim>\<open>write_read_ble\<close>: a session that succeeds
  returns from the function with its data; one that raises adds one to \<^verbatim>\<open>attempt\<close> and
  goes round the inner loop again. The loop has no \<^verbatim>\<open>break\<close> and never looks at
  \<^verbatim>\<open>retries\<close>. Not returning is the value \<open>None\<close> of the outer option.
\<close>

partial_function (option) session_loop ::
  "transport \<Rightarrow> string \<Rightarrow> request \<Rightarrow> int \<Rightarrow> world \<Rightarrow> (bytes \<times> world) option" where
  "session_loop tr m rq attempt w =
     (case fst (tr (sessions w) m rq) of
        Some data \<Rightarrow> Some (data, after_session tr m rq w)
      | None \<Rightarrow> session_loop tr m rq (attempt + 1) (after_session tr m rq w))"

text \<open>
  The outer \<^verbatim>\<open>while attempt <= retries\<close>: its test is evaluated once, with
  \<^verbatim>\<open>attempt = 0\<close>, since its body (the inner loop) only ever leaves by \<^verbatim>\<open>return\<close>. When
  the test fails the function returns \<^verbatim>\<open>None\<close> without opening a session. The
  \<^verbatim>\<open>timeout\<close> argument is not used by the source.
\<close>

definition retry_loop ::
  "transport \<Rightarrow> string \<Rightarrow> request \<Rightarrow> int \<Rightarrow> world \<Rightarrow> (bytes option \<times> world) option" where
  "retry_loop tr m rq retries_arg w =
     (if (0::int) \<le> retries_arg
      then (case session_loop tr m rq 0 w of
              None \<Rightarrow> None
            | Some (data, w') \<Rightarrow> Some (Some data, w'))
      else Some (None, w))"

definition read_ble ::
  "transport \<Rightarrow> string \<Rightarrow> nat \<Rightarrow> int \<Rightarrow> world \<Rightarrow> (bytes option \<times> world) option" where
  "read_ble tr m handle retries_arg w = retry_loop tr m (CharRead handle) retries_arg w"

definition write_read_ble ::
  "transport \<Rightarrow> string \<Rightarrow> int \<Rightarrow> world \<Rightarrow> (bytes option \<times> world) option" where
  "write_read_ble tr m retries_arg w =
     retry_loop tr m (WriteThenRead 0x33 [0xa0, 0x1f] 0x35) retries_arg w"

subsection \<open>The poller\<close>

text \<open>
  The fields of \<^verbatim>\<open>MiFloraPoller\<close>. \<open>fw_version\<close> is \<^verbatim>\<open>_firmware_version\<close>; \<open>battery\<close> is
  \<open>None\<close> until the attribute is first assigned (\<^verbatim>\<open>__init__\<close> does not assign it). The
  \<^verbatim>\<open>adapter\<close> field is stored and never read; the lock serialises callers and has no
  effect on one caller, which is what is modelled.
\<close>

record poller =
  mac :: string
  cache :: "bytes option"
  cache_timeout :: time
  last_read :: "time option"
  fw_last_read :: time
  retries :: int
  ble_timeout :: int
  battery :: "int option"
  fw_version :: "string option"

definition init :: "string \<Rightarrow> int \<Rightarrow> int \<Rightarrow> world \<Rightarrow> poller" where
  "init m cache_timeout_arg retries_arg w =
     \<lparr>mac = m, cache = None, cache_timeout = seconds cache_timeout_arg, last_read = None,
      fw_last_read = clock w, retries = retries_arg, ble_timeout = 10, battery = None,
      fw_version = None\<rparr>"

text \<open>\<^verbatim>\<open>chr\<close> on a byte, and \<^verbatim>\<open>''.join(chr(n) for n in bs)\<close>.\<close>

definition chr :: "byte \<Rightarrow> char" where
  "chr b = char_of (unat b)"

definition decode_str :: "bytes \<Rightarrow> string" where
  "decode_str bs = map chr bs"

text \<open>Python's order on strings: lexicographic on the code points.\<close>

fun str_less :: "string \<Rightarrow> string \<Rightarrow> bool" where
  "str_less [] [] = False"
| "str_less [] (y # ys) = True"
| "str_less (x # xs) [] = False"
| "str_less (x # xs) (y # ys) =
     (if x = y then str_less xs ys else (of_char x :: nat) < of_char y)"

definition str_ge :: "string \<Rightarrow> string \<Rightarrow> bool" where
  "str_ge a b = (\<not> str_less a b)"

definition byte_sum :: "bytes \<Rightarrow> int" where
  "byte_sum bs = sum_list (map uint bs)"

text \<open>
  A method returns \<open>None\<close> when it does not return, and otherwise the exception or the
  value, with the poller and the world as the call left them: an exception keeps the
  assignments made before it.
\<close>

type_synonym 'a outcome = "((error + 'a) \<times> poller \<times> world) option"

text \<open>
  \<^verbatim>\<open>name\<close> joins the characters of what \<^verbatim>\<open>read_ble\<close> returns with no test for \<^verbatim>\<open>None\<close>;
  iterating over \<^verbatim>\<open>None\<close> raises \<^verbatim>\<open>TypeError\<close>.
\<close>

definition name :: "transport \<Rightarrow> poller \<Rightarrow> world \<Rightarrow> string outcome" where
  "name tr p w =
     (case read_ble tr (mac p) 0x03 (retries p) w of
        None \<Rightarrow> None
      | Some (None, w') \<Rightarrow> Some (Inl TypeError, p, w')
      | Some (Some bs, w') \<Rightarrow> Some (Inr (decode_str bs), p, w'))"

text \<open>
  \<^verbatim>\<open>firmware_version\<close> sets \<^verbatim>\<open>_fw_last_read\<close> before it reads. \<^verbatim>\<open>res[0]\<close> raises on an
  empty reply; \<^verbatim>\<open>res[2:]\<close> never raises.
\<close>

definition firmware_version :: "transport \<Rightarrow> poller \<Rightarrow> world \<Rightarrow> string option outcome" where
  "firmware_version tr p w =
     (if fw_version p = None \<or> clock w - hours 24 > fw_last_read p
      then (case read_ble tr (mac p) 0x38 (retries p) w of
              None \<Rightarrow> None
            | Some (None, w') \<Rightarrow>
                Some (Inr None, p\<lparr>fw_last_read := clock w, battery := Some 0, fw_version := None\<rparr>, w')
            | Some (Some [], w') \<Rightarrow>
                Some (Inl IndexError, p\<lparr>fw_last_read := clock w\<rparr>, w')
            | Some (Some (b # bs), w') \<Rightarrow>
                Some (Inr (Some (decode_str (drop 2 (b # bs)))),
                      p\<lparr>fw_last_read := clock w, battery := Some (uint b),
                        fw_version := Some (decode_str (drop 2 (b # bs)))\<rparr>, w'))
      else Some (Inr (fw_version p), p, w))"

definition battery_level :: "transport \<Rightarrow> poller \<Rightarrow> world \<Rightarrow> int outcome" where
  "battery_level tr p w =
     (case firmware_version tr p w of
        None \<Rightarrow> None
      | Some (Inl e, p', w') \<Rightarrow> Some (Inl e, p', w')
      | Some (Inr v, p', w') \<Rightarrow>
          (case battery p' of
             None \<Rightarrow> Some (Inl AttributeError, p', w')
           | Some b \<Rightarrow> Some (Inr b, p', w')))"

text \<open>
  \<^verbatim>\<open>_check_data\<close>: it reads \<^verbatim>\<open>self._cache[7]\<close> with no test of the length, which raises
  on fewer than eight bytes; comparing \<^verbatim>\<open>None\<close> with a string raises too.
\<close>

definition check_data :: "poller \<Rightarrow> error + poller" where
  "check_data p =
     (case cache p of
        None \<Rightarrow> Inr p
      | Some c \<Rightarrow>
          if length c \<le> 7 then Inl IndexError
          else if uint (c ! 7) > 100 then Inr (p\<lparr>cache := None\<rparr>)
          else (case fw_version p of
                  None \<Rightarrow> Inl TypeError
                | Some fw \<Rightarrow>
                    if str_ge fw ''2.6.6'' \<and> byte_sum (drop 10 c) = 0
                    then Inr (p\<lparr>cache := None\<rparr>)
                    else if byte_sum c = 0 then Inr (p\<lparr>cache := None\<rparr>)
                    else Inr p))"

text \<open>
  \<^verbatim>\<open>fill_cache\<close>. \<open>truthy\<close> is the truth value Python gives the firmware version in
  \<^verbatim>\<open>if not firmware_version\<close> (\<^verbatim>\<open>None\<close> and the empty string are false); \<open>backoff\<close> is
  \<^verbatim>\<open>datetime.now() - self._cache_timeout + timedelta(seconds=300)\<close>. The result of the
  read is assigned to \<^verbatim>\<open>_cache\<close> before \<^verbatim>\<open>_check_data\<close> runs.
\<close>

definition truthy :: "string option \<Rightarrow> bool" where
  "truthy v = (case v of None \<Rightarrow> False | Some s \<Rightarrow> s \<noteq> [])"

definition backoff :: "poller \<Rightarrow> world \<Rightarrow> time" where
  "backoff p w = clock w - cache_timeout p + seconds 300"

definition fill_cache :: "transport \<Rightarrow> poller \<Rightarrow> world \<Rightarrow> unit outcome" where
  "fill_cache tr p w =
     (case firmware_version tr p w of
        None \<Rightarrow> None
      | Some (Inl e, p1, w1) \<Rightarrow> Some (Inl e, p1, w1)
      | Some (Inr v, p1, w1) \<Rightarrow>
          if truthy v
          then (case write_read_ble tr (mac p1) (retries p1) w1 of
                  None \<Rightarrow> None
                | Some (data, w2) \<Rightarrow>
                    (case check_data (p1\<lparr>cache := data\<rparr>) of
                       Inl e \<Rightarrow> Some (Inl e, p1\<lparr>cache := data\<rparr>, w2)
                     | Inr p2 \<Rightarrow>
                         if cache p2 = None
                         then Some (Inr (), p2\<lparr>last_read := Some (backoff p2 w2)\<rparr>, w2)
                         else Some (Inr (), p2\<lparr>last_read := Some (clock w2)\<rparr>, w2)))
          else Some (Inr (), p1\<lparr>last_read := Some (backoff p1 w1)\<rparr>, w1))"

text \<open>
  \<^verbatim>\<open>_parse_data\<close>: the dictionary of the four readings. The temperature is the quotient
  by ten, taken exactly (Python rounds it to the nearest double). The highest index
  read is 9.
\<close>

definition parse_data :: "poller \<Rightarrow> error + (string \<rightharpoonup> pyval)" where
  "parse_data p =
     (case cache p of
        None \<Rightarrow> Inl TypeError
      | Some data \<Rightarrow>
          if length data < 10 then Inl IndexError
          else Inr [MI_TEMPERATURE \<mapsto> PyFloat (real_of_int (uint (data ! 1) * 256 + uint (data ! 0)) / 10),
                    MI_MOISTURE \<mapsto> PyInt (uint (data ! 7)),
                    MI_LIGHT \<mapsto> PyInt (uint (data ! 4) * 256 + uint (data ! 3)),
                    MI_CONDUCTIVITY \<mapsto> PyInt (uint (data ! 9) * 256 + uint (data ! 8))])"

text \<open>The test of the locked block of \<^verbatim>\<open>parameter_value\<close>.\<close>

definition refresh_required :: "bool \<Rightarrow> poller \<Rightarrow> world \<Rightarrow> bool" where
  "refresh_required read_cached p w =
     (read_cached = False \<or>
      (case last_read p of
         None \<Rightarrow> True
       | Some t \<Rightarrow> clock w - cache_timeout p > t))"

text \<open>The test after the block: \<^verbatim>\<open>self._cache and (len(self._cache) == 16)\<close>.\<close>

definition cache_usable :: "poller \<Rightarrow> bool" where
  "cache_usable p = (case cache p of None \<Rightarrow> False | Some c \<Rightarrow> c \<noteq> [] \<and> length c = 16)"

text \<open>
  The last statement of \<^verbatim>\<open>parameter_value\<close>, reached after the locked block whether or
  not the block filled the cache: decode and look the parameter up, or fill once more
  and raise.
\<close>

definition serve :: "transport \<Rightarrow> string \<Rightarrow> poller \<Rightarrow> world \<Rightarrow> pyval outcome" where
  "serve tr parameter p w =
     (if cache_usable p
      then (case parse_data p of
              Inl e \<Rightarrow> Some (Inl e, p, w)
            | Inr res \<Rightarrow>
                (case res parameter of
                   None \<Rightarrow> Some (Inl (KeyError parameter), p, w)
                 | Some v \<Rightarrow> Some (Inr v, p, w)))
      else (case fill_cache tr p w of
              None \<Rightarrow> None
            | Some (Inl e, p', w') \<Rightarrow> Some (Inl e, p', w')
            | Some (Inr u, p', w') \<Rightarrow>
                Some (Inl (IOError ''Could not read data from Mi Flora sensor %s'' (mac p')), p', w')))"

definition parameter_value ::
  "transport \<Rightarrow> poller \<Rightarrow> string \<Rightarrow> bool \<Rightarrow> world \<Rightarrow> pyval outcome" where
  "parameter_value tr p parameter read_cached w =
     (if parameter = MI_BATTERY
      then (case battery_level tr p w of
              None \<Rightarrow> None
            | Some (Inl e, p', w') \<Rightarrow> Some (Inl e, p', w')
            | Some (Inr b, p', w') \<Rightarrow> Some (Inr (PyInt b), p', w'))
      else if refresh_required read_cached p w
      then (case fill_cache tr p w of
              None \<Rightarrow> None
            | Some (Inl e, p', w') \<Rightarrow> Some (Inl e, p', w')
            | Some (Inr u, p', w') \<Rightarrow> serve tr parameter p' w')
      else serve tr parameter p w)"

subsection \<open>Transports and states used as concrete inputs\<close>

text \<open>A transport whose every session raises, after one second.\<close>

definition failing_transport :: transport where
  "failing_transport k m rq = (None, seconds 1)"

text \<open>
  A transport that plays a script: the \<open>k\<close>-th session gives the \<open>k\<close>-th entry, whatever
  is asked, and raises once the script is over. Every session takes one second.
\<close>

definition scripted :: "bytes option list \<Rightarrow> transport" where
  "scripted script k m rq = (if k < length script then script ! k else None, seconds 1)"

definition start_world :: world where
  "start_world = \<lparr>clock = 0, sessions = 0\<rparr>"

definition sensor_mac :: string where
  "sensor_mac = ''C4:7C:8D:60:8F:E6''"

text \<open>
  The payload of the specification's end-to-end example, and a poller that holds it
  in its cache, read at time 0, under a given firmware version.
\<close>

definition spec_payload :: bytes where
  "spec_payload =
     [0xC8, 0x00, 0x00, 0x00, 0x2C, 0x01, 0x00, 0x2D, 0x00, 0x96, 0, 0, 0, 0, 0, 0]"

definition spec_poller :: "string \<Rightarrow> poller" where
  "spec_poller fw =
     (init sensor_mac 600 3 start_world)
       \<lparr>cache := Some spec_payload, last_read := Some 0, battery := Some 100,
        fw_version := Some fw\<rparr>"

text \<open>
  A reply to the read of the firmware characteristic: battery 100, one byte that is
  skipped, and the version \<^verbatim>\<open>2.6.5\<close>.
\<close>

definition fw_reply :: bytes where
  "fw_reply = [0x64, 0x27, 0x32, 0x2E, 0x36, 0x2E, 0x35]"

text \<open>A transport that answers every session with the same bytes, after one second.\<close>

definition answering :: "bytes \<Rightarrow> transport" where
  "answering d k m rq = (Some d, seconds 1)"

text \<open>An all-zero frame, a frame of three bytes, and the poller before and after its
  first firmware read at time 0.\<close>

definition zero_payload :: bytes where
  "zero_payload = [0, 0, 0, 0, 0, 0, 0, 0, 0, 0, 0, 0, 0, 0, 0, 0]"

definition short_payload :: bytes where
  "short_payload = [0xAA, 0xBB, 0xCC]"

definition fresh_poller :: poller where
  "fresh_poller = init sensor_mac 600 3 start_world"

definition read_poller :: poller where
  "read_poller = fresh_poller\<lparr>battery := Some 100, fw_version := Some ''2.6.5''\<rparr>"


text \<open>The first ten bytes of the example payload.\<close>

definition ten_payload :: bytes where
  "ten_payload = [0xC8, 0x00, 0x00, 0x00, 0x2C, 0x01, 0x00, 0x2D, 0x00, 0x96]"

text \<open>
  The invariant of the cache entry in the words of the specification: the payload is
  set only on a validated, non-empty read (the rules that do not depend on the
  firmware), and then the time of the last read is set.
\<close>

definition valid_payload :: "bytes \<Rightarrow> bool" where
  "valid_payload c = (7 < length c \<and> uint (c ! 7) \<le> 100 \<and> byte_sum c \<noteq> 0)"

definition cache_invariant :: "poller \<Rightarrow> bool" where
  "cache_invariant p =
     (case cache p of
        None \<Rightarrow> True
      | Some c \<Rightarrow> valid_payload c \<and> last_read p \<noteq> None)"

section \<open>Properties of the retrying primitives\<close>

lemma session_loop_Some:
  "fst (tr (sessions w) m rq) = Some d \<Longrightarrow>
   session_loop tr m rq a w = Some (d, after_session tr m rq w)"
  by (subst session_loop.simps) simp

lemma session_loop_None:
  "fst (tr (sessions w) m rq) = None \<Longrightarrow>
   session_loop tr m rq a w = session_loop tr m rq (a + 1) (after_session tr m rq w)"
  by (subst session_loop.simps) simp

text \<open>The loop returns only from a session that succeeded.\<close>

lemma session_loop_returns_success:
  assumes "session_loop tr m rq a w = Some y"
  shows "\<exists>k. fst (tr k m rq) \<noteq> None"
  using assms
proof (induction tr m rq a w y rule: session_loop.raw_induct[rotated 1, consumes 1])
  case (1 loop tr m rq a w y)
  show ?case
  proof (cases "fst (tr (sessions w) m rq)")
    case None
    from 1 show ?thesis using None
      by (auto simp: session_loop_None)
  next
    case (Some d)
    then show ?thesis by auto
  qed
qed

text \<open>A loop that returns has opened at least one session.\<close>

lemma session_loop_sessions:
  assumes "session_loop tr m rq a w = Some y"
  shows "sessions w < sessions (snd y)"
  using assms
proof (induction tr m rq a w y rule: session_loop.raw_induct[rotated 1, consumes 1])
  case (1 loop tr m rq a w y)
  show ?case
  proof (cases "fst (tr (sessions w) m rq)")
    case None
    from 1 show ?thesis using None
      by (fastforce simp: session_loop_None after_session_def)
  next
    case (Some d)
    with 1 show ?thesis by (auto simp: after_session_def)
  qed
qed

text \<open>
  Claim C1 says that against a transport whose every session fails, \<^verbatim>\<open>read_ble\<close> and
  \<^verbatim>\<open>write_read_ble\<close> with a retry bound \<open>r \<ge> 0\<close> make \<open>r + 1\<close> attempts and return
  \<^verbatim>\<open>None\<close>. The source does not: the inner \<^verbatim>\<open>while True\<close> never hands control back to
  the bounded outer loop, so neither function returns at all.
\<close>

theorem retry_never_gives_up:
  assumes "0 \<le> r" and "\<And>k rq. fst (tr k m rq) = None"
  shows "read_ble tr m h r w = None \<and> write_read_ble tr m r w = None"
proof -
  have "session_loop tr m rq 0 w = None" for rq
    using session_loop_returns_success[of tr m rq 0 w] assms(2)
    by (cases "session_loop tr m rq 0 w") auto
  with assms(1) show ?thesis
    by (simp add: read_ble_def write_read_ble_def retry_loop_def)
qed

theorem retry_never_gives_up_witness:
  "read_ble failing_transport sensor_mac 0x03 3 start_world = None \<and>
   write_read_ble failing_transport sensor_mac 3 start_world = None"
  using retry_never_gives_up[of 3 failing_transport sensor_mac 3 start_world]
  by (simp add: failing_transport_def)

text \<open>
  The bound is not what stops the loop: with a retry bound of 0, against a transport
  that fails five times and then answers, \<^verbatim>\<open>read_ble\<close> opens six sessions and returns
  the data.
\<close>

lemma retry_bound_not_enforced:
  "read_ble (scripted [None, None, None, None, None, Some fw_reply]) sensor_mac 0x38 0 start_world
     = Some (Some fw_reply, \<lparr>clock = seconds 6, sessions = 6\<rparr>)"
  by (simp add: read_ble_def retry_loop_def session_loop_None session_loop_Some scripted_def
      after_session_def start_world_def seconds_def)

section \<open>Validation and decoding\<close>

text \<open>\<open>str_less\<close> is the lexicographic order of the code points.\<close>

lemma str_less_lexord:
  "str_less a b \<longleftrightarrow> (a, b) \<in> lexord {(x, y). (of_char x :: nat) < of_char y}"
  by (induction a b rule: str_less.induct) auto

lemma byte_sum_zero_iff:
  "byte_sum bs = 0 \<longleftrightarrow> (\<forall>x \<in> set bs. x = 0)"
proof -
  have nn: "0 \<le> byte_sum xs" for xs
    by (induction xs) (auto simp: byte_sum_def)
  show ?thesis
  proof (induction bs)
    case Nil
    then show ?case by (simp add: byte_sum_def)
  next
    case (Cons b bs)
    have "byte_sum (b # bs) = uint b + byte_sum bs" by (simp add: byte_sum_def)
    moreover have "0 \<le> uint b" by simp
    moreover note nn[of bs]
    ultimately have "byte_sum (b # bs) = 0 \<longleftrightarrow> uint b = 0 \<and> byte_sum bs = 0" by linarith
    with Cons show ?case by (auto simp: uint_0_iff)
  qed
qed

text \<open>
  Claim C2, as amended: the example payload passes \<^verbatim>\<open>_check_data\<close> under firmware
  \<^verbatim>\<open>2.6.5\<close> and \<^verbatim>\<open>_parse_data\<close> gives temperature 20.0 and moisture 45, but light
  \<open>0x2C * 256 + 0x00 = 11264\<close> (bytes 4 and 3) and conductivity
  \<open>0x96 * 256 + 0x00 = 38400\<close> (bytes 9 and 8), not 300 and 150.
\<close>

theorem decode_example:
  assumes "cache p = Some spec_payload" and "fw_version p = Some ''2.6.5''"
  shows "check_data p = Inr p \<and>
         (case parse_data p of
            Inl e \<Rightarrow> False
          | Inr res \<Rightarrow>
              res MI_TEMPERATURE = Some (PyFloat 20) \<and> res MI_LIGHT = Some (PyInt 11264) \<and>
              res MI_MOISTURE = Some (PyInt 45) \<and> res MI_CONDUCTIVITY = Some (PyInt 38400))"
  using assms
  by (simp add: check_data_def parse_data_def spec_payload_def byte_sum_def str_ge_def
      MI_TEMPERATURE_def MI_LIGHT_def MI_MOISTURE_def MI_CONDUCTIVITY_def)

theorem decode_example_witness:
  "check_data (spec_poller ''2.6.5'') = Inr (spec_poller ''2.6.5'') \<and>
   (case parse_data (spec_poller ''2.6.5'') of
      Inl e \<Rightarrow> False
    | Inr res \<Rightarrow>
        res MI_TEMPERATURE = Some (PyFloat 20) \<and> res MI_LIGHT = Some (PyInt 11264) \<and>
        res MI_MOISTURE = Some (PyInt 45) \<and> res MI_CONDUCTIVITY = Some (PyInt 38400))"
  using decode_example[of "spec_poller ''2.6.5''"]
  by (simp add: spec_poller_def)

text \<open>
  Claim C2 as the specification states it is false: a poller that holds the example
  payload, validated and fresh, does not serve the four values 20.0, 300, 45 and 150.
\<close>

theorem decode_example_counterexample:
  "\<not> (check_data (spec_poller ''2.6.5'') = Inr (spec_poller ''2.6.5'') \<and>
      parameter_value failing_transport (spec_poller ''2.6.5'') MI_TEMPERATURE True start_world
        = Some (Inr (PyFloat 20), spec_poller ''2.6.5'', start_world) \<and>
      parameter_value failing_transport (spec_poller ''2.6.5'') MI_LIGHT True start_world
        = Some (Inr (PyInt 300), spec_poller ''2.6.5'', start_world) \<and>
      parameter_value failing_transport (spec_poller ''2.6.5'') MI_MOISTURE True start_world
        = Some (Inr (PyInt 45), spec_poller ''2.6.5'', start_world) \<and>
      parameter_value failing_transport (spec_poller ''2.6.5'') MI_CONDUCTIVITY True start_world
        = Some (Inr (PyInt 150), spec_poller ''2.6.5'', start_world))"
  by (simp add: parameter_value_def refresh_required_def serve_def cache_usable_def
      parse_data_def spec_poller_def spec_payload_def init_def start_world_def seconds_def
      MI_TEMPERATURE_def MI_LIGHT_def MI_MOISTURE_def MI_CONDUCTIVITY_def MI_BATTERY_def)

text \<open>What the same poller does serve for the light: \<open>11264\<close>.\<close>

lemma light_served:
  "parameter_value failing_transport (spec_poller ''2.6.5'') MI_LIGHT True start_world
     = Some (Inr (PyInt 11264), spec_poller ''2.6.5'', start_world)"
  by (simp add: parameter_value_def refresh_required_def serve_def cache_usable_def
      parse_data_def spec_poller_def spec_payload_def init_def start_world_def seconds_def
      MI_TEMPERATURE_def MI_LIGHT_def MI_MOISTURE_def MI_CONDUCTIVITY_def MI_BATTERY_def)

text \<open>
  Claim C6: a 16-byte payload whose bytes from index 10 on are all zero, whose moisture
  byte is at most 100 and whose bytes do not all sum to zero, is rejected by
  \<^verbatim>\<open>_check_data\<close> (the cache is set to \<^verbatim>\<open>None\<close>) exactly when the firmware version is
  at least \<^verbatim>\<open>2.6.6\<close> in the order of strings, and is kept otherwise; so it is rejected
  under \<^verbatim>\<open>2.6.6\<close> and kept under \<^verbatim>\<open>2.6.5\<close>.
\<close>

theorem firmware_gated_validation:
  assumes "cache p = Some c" and "length c = 16"
    and "\<forall>i. 10 \<le> i \<and> i < length c \<longrightarrow> c ! i = 0"
    and "uint (c ! 7) \<le> 100" and "byte_sum c \<noteq> 0"
    and "fw_version p = Some fw"
  shows "((check_data p = Inr (p\<lparr>cache := None\<rparr>)) = str_ge fw ''2.6.6'') \<and>
         ((check_data p = Inr p) = (\<not> str_ge fw ''2.6.6'')) \<and>
         (fw = ''2.6.6'' \<longrightarrow> check_data p = Inr (p\<lparr>cache := None\<rparr>)) \<and>
         (fw = ''2.6.5'' \<longrightarrow> check_data p = Inr p)"
proof -
  have "x = 0" if "x \<in> set (drop 10 c)" for x
    using that assms(3) by (auto simp: in_set_conv_nth)
  then have z: "byte_sum (drop 10 c) = 0" by (simp add: byte_sum_zero_iff)
  have "cache (p\<lparr>cache := None\<rparr>) \<noteq> cache p"
    using assms(1) by simp
  then have ne: "p\<lparr>cache := None\<rparr> \<noteq> p" by metis
  have cd: "check_data p = (if str_ge fw ''2.6.6'' then Inr (p\<lparr>cache := None\<rparr>) else Inr p)"
    using assms z by (simp add: check_data_def)
  have a: "(check_data p = Inr (p\<lparr>cache := None\<rparr>)) = str_ge fw ''2.6.6''"
    using cd ne by auto
  have b: "(check_data p = Inr p) = (\<not> str_ge fw ''2.6.6'')"
    using cd ne by auto
  have c: "fw = ''2.6.6'' \<longrightarrow> check_data p = Inr (p\<lparr>cache := None\<rparr>)"
    using cd by (simp add: str_ge_def)
  have d: "fw = ''2.6.5'' \<longrightarrow> check_data p = Inr p"
    using cd by (simp add: str_ge_def)
  from a b c d show ?thesis by blast
qed

theorem firmware_gated_validation_witness:
  "check_data (spec_poller ''2.6.6'') = Inr ((spec_poller ''2.6.6'')\<lparr>cache := None\<rparr>) \<and>
   check_data (spec_poller ''2.6.5'') = Inr (spec_poller ''2.6.5'') \<and>
   str_ge ''2.6.6'' ''2.6.6'' \<and> \<not> str_ge ''2.6.5'' ''2.6.6''"
proof -
  have z: "\<forall>i. 10 \<le> i \<and> i < length spec_payload \<longrightarrow> spec_payload ! i = 0"
  proof (intro allI impI)
    fix i assume "10 \<le> i \<and> i < length spec_payload"
    then have "i \<in> {10, 11, 12, 13, 14, 15}" by (auto simp: spec_payload_def)
    then show "spec_payload ! i = 0" by (auto simp: spec_payload_def)
  qed
  have s: "byte_sum spec_payload \<noteq> 0" by (simp add: spec_payload_def byte_sum_def)
  have m: "uint (spec_payload ! 7) \<le> 100" by (simp add: spec_payload_def)
  have l: "length spec_payload = 16" by (simp add: spec_payload_def)
  have "check_data (spec_poller ''2.6.6'') = Inr ((spec_poller ''2.6.6'')\<lparr>cache := None\<rparr>)"
    using firmware_gated_validation[of "spec_poller ''2.6.6''" spec_payload "''2.6.6''"] z s m l
    by (simp add: spec_poller_def)
  moreover have "check_data (spec_poller ''2.6.5'') = Inr (spec_poller ''2.6.5'')"
    using firmware_gated_validation[of "spec_poller ''2.6.5''" spec_payload "''2.6.5''"] z s m l
    by (simp add: spec_poller_def)
  moreover have "str_ge ''2.6.6'' ''2.6.6'' \<and> \<not> str_ge ''2.6.5'' ''2.6.6''"
    by (simp add: str_ge_def)
  ultimately show ?thesis by blast
qed

section \<open>The name\<close>

text \<open>On a read that succeeds \<^verbatim>\<open>name\<close> returns the bytes, each as the character of its code.\<close>

lemma name_on_success:
  assumes "read_ble tr (mac p) 0x03 (retries p) w = Some (Some bs, w')"
  shows "name tr p w = Some (Inr (map chr bs), p, w')"
  using assms by (simp add: name_def decode_str_def)

text \<open>
  Claim C7 says that \<^verbatim>\<open>name\<close> returns an absent or empty result when the read gives
  up, and never raises. The source iterates over the result of \<^verbatim>\<open>read_ble\<close> without
  the test for \<^verbatim>\<open>None\<close> that \<^verbatim>\<open>firmware_version\<close> makes: when the read returns
  \<^verbatim>\<open>None\<close>, \<^verbatim>\<open>name\<close> raises \<^verbatim>\<open>TypeError\<close>.
\<close>

theorem name_raises_on_absent_read:
  assumes "read_ble tr (mac p) 0x03 (retries p) w = Some (None, w')"
  shows "name tr p w = Some (Inl TypeError, p, w')"
  using assms by (simp add: name_def)

theorem name_raises_on_absent_read_witness:
  "name failing_transport (init sensor_mac 600 (-1) start_world) start_world
     = Some (Inl TypeError, init sensor_mac 600 (-1) start_world, start_world)"
  using name_raises_on_absent_read[of failing_transport "init sensor_mac 600 (-1) start_world"
      start_world start_world]
  by (simp add: read_ble_def retry_loop_def init_def)

section \<open>The firmware version and the battery\<close>

lemma decode_version: "decode_str [0x32, 0x2E, 0x36, 0x2E, 0x35] = ''2.6.5''"
  unfolding decode_str_def chr_def by code_simp

lemma retry_loop_negative:
  "r < 0 \<Longrightarrow> retry_loop tr m rq r w = Some (None, w)"
  by (simp add: retry_loop_def)

lemma retry_loop_first_success:
  "0 \<le> r \<Longrightarrow> fst (tr (sessions w) m rq) = Some d \<Longrightarrow>
   retry_loop tr m rq r w = Some (Some d, after_session tr m rq w)"
  by (simp add: retry_loop_def session_loop_Some)

lemma retry_loop_sessions:
  assumes "retry_loop tr m rq r w = Some (res, w')"
  shows "sessions w \<le> sessions w' \<and> (0 \<le> r \<longrightarrow> sessions w < sessions w' \<and> res \<noteq> None)"
proof (cases "0 \<le> r")
  case True
  with assms obtain d where "session_loop tr m rq 0 w = Some (d, w')" and "res = Some d"
    by (auto simp: retry_loop_def split: option.splits)
  with session_loop_sessions[of tr m rq 0 w "(d, w')"] True show ?thesis by simp
next
  case False
  with assms show ?thesis by (simp add: retry_loop_def)
qed

lemma firmware_version_cached:
  assumes "fw_version p = Some v" and "clock w - fw_last_read p \<le> hours 24"
  shows "firmware_version tr p w = Some (Inr (Some v), p, w)"
  using assms by (simp add: firmware_version_def)

text \<open>\<^verbatim>\<open>firmware_version\<close> leaves the measurement cache and the settings alone.\<close>

lemma firmware_version_frame:
  assumes "firmware_version tr p w = Some (r, p', w')"
  shows "mac p' = mac p \<and> retries p' = retries p \<and> cache_timeout p' = cache_timeout p \<and>
         cache p' = cache p \<and> last_read p' = last_read p \<and> sessions w \<le> sessions w'"
proof (cases "fw_version p = None \<or> clock w - hours 24 > fw_last_read p")
  case True
  with assms obtain res where rb: "read_ble tr (mac p) 0x38 (retries p) w = Some (res, w')"
    by (auto simp: firmware_version_def split: option.splits list.splits)
  then have "sessions w \<le> sessions w'"
    using retry_loop_sessions[of tr "mac p" "CharRead 0x38" "retries p" w res w']
    by (simp add: read_ble_def)
  moreover from assms True rb have "mac p' = mac p \<and> retries p' = retries p \<and>
      cache_timeout p' = cache_timeout p \<and> cache p' = cache p \<and> last_read p' = last_read p"
    by (auto simp: firmware_version_def split: option.splits list.splits)
  ultimately show ?thesis by simp
next
  case False
  with assms show ?thesis by (auto simp: firmware_version_def)
qed

lemma firmware_version_read:
  assumes "firmware_version tr p w = Some (r, p', w')"
    and "fw_version p = None \<or> clock w - hours 24 > fw_last_read p"
  shows "fw_last_read p' = clock w \<and> (0 \<le> retries p \<longrightarrow> sessions w < sessions w')"
proof -
  from assms obtain res where rb: "read_ble tr (mac p) 0x38 (retries p) w = Some (res, w')"
    by (auto simp: firmware_version_def split: option.splits list.splits)
  then have "0 \<le> retries p \<longrightarrow> sessions w < sessions w'"
    using retry_loop_sessions[of tr "mac p" "CharRead 0x38" "retries p" w res w']
    by (simp add: read_ble_def)
  moreover from assms rb have "fw_last_read p' = clock w"
    by (auto simp: firmware_version_def split: option.splits list.splits)
  ultimately show ?thesis by simp
qed

lemma battery_level_world:
  assumes "battery_level tr p w = Some (r, p', w')"
  shows "\<exists>r'. firmware_version tr p w = Some (r', p', w')"
  using assms by (auto simp: battery_level_def split: option.splits sum.splits)

text \<open>
  What \<^verbatim>\<open>firmware_version\<close> does by its test
  \<^verbatim>\<open>self._firmware_version is None or now - 24h > self._fw_last_read\<close>. A call that
  reads the device sets the time of the last check to the time of the call, whatever
  the read gives. A cached version is returned with no session, and so is the battery
  level, while the last check is at most 24 hours old. With no version cached, a call
  that returns under a retry bound of at least 0 has opened a session, whatever the
  time of the last check.
\<close>

lemma firmware_refresh_policy:
  "(firmware_version tr p w = Some (r, p', w') \<and>
      (fw_version p = None \<or> clock w - hours 24 > fw_last_read p)
      \<longrightarrow> fw_last_read p' = clock w) \<and>
   (fw_version p = Some v \<and> clock w - fw_last_read p \<le> hours 24
      \<longrightarrow> firmware_version tr p w = Some (Inr (Some v), p, w) \<and>
          (\<forall>b. battery p = Some b \<longrightarrow> battery_level tr p w = Some (Inr b, p, w))) \<and>
   (fw_version p = None \<and> 0 \<le> retries p \<and> firmware_version tr p w = Some (r, p', w')
      \<longrightarrow> sessions w < sessions w') \<and>
   (fw_version p = None \<and> 0 \<le> retries p \<and> battery_level tr p w = Some (rb, pb, wb)
      \<longrightarrow> sessions w < sessions wb)"
proof (intro conjI impI)
  assume "firmware_version tr p w = Some (r, p', w') \<and>
      (fw_version p = None \<or> clock w - hours 24 > fw_last_read p)"
  then show "fw_last_read p' = clock w"
    using firmware_version_read[of tr p w r p' w'] by blast
next
  assume a: "fw_version p = Some v \<and> clock w - fw_last_read p \<le> hours 24"
  then show "firmware_version tr p w = Some (Inr (Some v), p, w)"
    by (simp add: firmware_version_cached)
  from a show "\<forall>b. battery p = Some b \<longrightarrow> battery_level tr p w = Some (Inr b, p, w)"
    by (simp add: battery_level_def firmware_version_cached)
next
  assume "fw_version p = None \<and> 0 \<le> retries p \<and> firmware_version tr p w = Some (r, p', w')"
  then show "sessions w < sessions w'"
    using firmware_version_read[of tr p w r p' w'] by blast
next
  assume a: "fw_version p = None \<and> 0 \<le> retries p \<and> battery_level tr p w = Some (rb, pb, wb)"
  then obtain r' where "firmware_version tr p w = Some (r', pb, wb)"
    using battery_level_world by blast
  with a show "sessions w < sessions wb"
    using firmware_version_read[of tr p w r' pb wb] by blast
qed

text \<open>Against a transport whose every session fails, a bounded retry never returns.\<close>

lemma retry_loop_all_fail:
  assumes "0 \<le> r" and "\<And>k. fst (tr k m rq) = None"
  shows "retry_loop tr m rq r w = None"
proof -
  have "session_loop tr m rq 0 w = None"
    using session_loop_returns_success[of tr m rq 0 w] assms(2)
    by (cases "session_loop tr m rq 0 w") auto
  with assms(1) show ?thesis by (simp add: retry_loop_def)
qed

text \<open>
  Claim C8 says that a device that keeps failing is not read in a hot loop: after a
  failed firmware read, the calls of the next 24 hours return the absent version
  without a new read. In the source there is no state after a failed read to return
  to: with a retry bound of at least 0, a call of \<^verbatim>\<open>firmware_version\<close> (or of
  \<^verbatim>\<open>battery_level\<close>) that has to read, against a device whose every session fails, sets
  \<^verbatim>\<open>_fw_last_read\<close> and then never returns from \<^verbatim>\<open>read_ble\<close>, which opens sessions without
  bound.
\<close>

theorem firmware_read_never_returns:
  assumes "0 \<le> retries p"
    and "fw_version p = None \<or> clock w - hours 24 > fw_last_read p"
    and "\<And>k rq. fst (tr k (mac p) rq) = None"
  shows "firmware_version tr p w = None \<and> battery_level tr p w = None"
proof -
  have "read_ble tr (mac p) 0x38 (retries p) w = None"
    using retry_loop_all_fail[of "retries p" tr "mac p" "CharRead 0x38" w] assms(1,3)
    by (simp add: read_ble_def)
  with assms(2) have "firmware_version tr p w = None"
    by (simp add: firmware_version_def)
  then show ?thesis by (simp add: battery_level_def)
qed

theorem firmware_read_never_returns_witness:
  "firmware_version failing_transport fresh_poller start_world = None \<and>
   battery_level failing_transport fresh_poller start_world = None"
proof -
  have "0 \<le> retries fresh_poller" and "fw_version fresh_poller = None"
    by (simp_all add: fresh_poller_def init_def)
  then show ?thesis
    using firmware_read_never_returns[of fresh_poller start_world failing_transport]
    by (simp add: failing_transport_def)
qed

text \<open>
  A read that fails by raising does leave a state: an empty reply makes \<^verbatim>\<open>res[0]\<close> raise
  after \<^verbatim>\<open>_fw_last_read\<close> was set. A minute later no version is cached, and the next
  call opens a session, the time of the last check notwithstanding.
\<close>

lemma empty_reply_raises:
  "firmware_version (scripted [Some [], Some fw_reply]) fresh_poller start_world
     = Some (Inl IndexError, fresh_poller, \<lparr>clock = seconds 1, sessions = 1\<rparr>)"
  by (simp add: firmware_version_def read_ble_def retry_loop_first_success scripted_def
      after_session_def fresh_poller_def init_def start_world_def)

lemma read_again_after_empty_reply:
  "firmware_version (scripted [Some [], Some fw_reply]) fresh_poller
      \<lparr>clock = seconds 60, sessions = 1\<rparr>
     = Some (Inr (Some ''2.6.5''), read_poller\<lparr>fw_last_read := seconds 60\<rparr>,
             \<lparr>clock = seconds 61, sessions = 2\<rparr>)"
  by (simp add: firmware_version_def read_ble_def retry_loop_first_success scripted_def
      after_session_def fresh_poller_def read_poller_def init_def start_world_def fw_reply_def
      decode_version seconds_def)

section \<open>Filling the cache\<close>

lemma check_data_frame:
  assumes "check_data p = Inr p'"
  shows "p' = p \<or> (p' = p\<lparr>cache := None\<rparr> \<and> cache p \<noteq> None)"
  using assms by (auto simp: check_data_def split: option.splits if_splits)


lemma refresh_due:
  "last_read q = Some (t - cache_timeout q + seconds 300) \<Longrightarrow>
   refresh_required True q wn = (clock wn > t + seconds 300)"
  by (auto simp: refresh_required_def)

text \<open>
  The paths of \<^verbatim>\<open>fill_cache\<close> that return. Once \<^verbatim>\<open>firmware_version\<close> has returned,
  \<^verbatim>\<open>fill_cache\<close> sets \<^verbatim>\<open>_last_read\<close> to \<open>now - cache_timeout + 300 s\<close> when the firmware
  version is \<^verbatim>\<open>None\<close> or empty, when the measurement read gives \<^verbatim>\<open>None\<close>, and when
  \<^verbatim>\<open>_check_data\<close> rejects the payload, and to \<open>now\<close> when the payload is kept, \<open>now\<close>
  being the clock when the assignment is made. After such a fill at time \<open>t\<close> the test
  of \<^verbatim>\<open>parameter_value\<close> asks for a refresh exactly when the clock is past \<open>t + 300 s\<close>.
\<close>

lemma fill_cache_last_read:
  assumes "firmware_version tr p w = Some (Inr v, p1, w1)"
  shows
   "(\<not> truthy v \<longrightarrow>
       fill_cache tr p w
         = Some (Inr (), p1\<lparr>last_read := Some (clock w1 - cache_timeout p + seconds 300)\<rparr>, w1)) \<and>
    (truthy v \<and> write_read_ble tr (mac p) (retries p) w1 = Some (None, w2) \<longrightarrow>
       fill_cache tr p w
         = Some (Inr (), p1\<lparr>cache := None,
                   last_read := Some (clock w2 - cache_timeout p + seconds 300)\<rparr>, w2)) \<and>
    (truthy v \<and> write_read_ble tr (mac p) (retries p) w1 = Some (Some c, w2) \<and>
     check_data (p1\<lparr>cache := Some c\<rparr>) = Inr p2 \<longrightarrow>
       fill_cache tr p w
         = Some (Inr (), p2\<lparr>last_read := Some (if cache p2 = None
                                                then clock w2 - cache_timeout p + seconds 300
                                                else clock w2)\<rparr>, w2)) \<and>
    (\<forall>q t wn. last_read q = Some (t - cache_timeout q + seconds 300) \<longrightarrow>
       refresh_required True q wn = (clock wn > t + seconds 300))"
proof -
  note fr = firmware_version_frame[OF assms]
  have a: "\<not> truthy v \<longrightarrow>
       fill_cache tr p w
         = Some (Inr (), p1\<lparr>last_read := Some (clock w1 - cache_timeout p + seconds 300)\<rparr>, w1)"
    using assms fr by (simp add: fill_cache_def backoff_def)
  have b: "truthy v \<and> write_read_ble tr (mac p) (retries p) w1 = Some (None, w2) \<longrightarrow>
       fill_cache tr p w
         = Some (Inr (), p1\<lparr>cache := None,
                   last_read := Some (clock w2 - cache_timeout p + seconds 300)\<rparr>, w2)"
    using assms fr by (simp add: fill_cache_def backoff_def check_data_def)
  have c: "truthy v \<and> write_read_ble tr (mac p) (retries p) w1 = Some (Some c, w2) \<and>
     check_data (p1\<lparr>cache := Some c\<rparr>) = Inr p2 \<longrightarrow>
       fill_cache tr p w
         = Some (Inr (), p2\<lparr>last_read := Some (if cache p2 = None
                                                then clock w2 - cache_timeout p + seconds 300
                                                else clock w2)\<rparr>, w2)"
  proof
    assume h: "truthy v \<and> write_read_ble tr (mac p) (retries p) w1 = Some (Some c, w2) \<and>
     check_data (p1\<lparr>cache := Some c\<rparr>) = Inr p2"
    then have "cache_timeout p2 = cache_timeout p"
      using check_data_frame[of "p1\<lparr>cache := Some c\<rparr>" p2] fr by auto
    with h assms fr show "fill_cache tr p w
         = Some (Inr (), p2\<lparr>last_read := Some (if cache p2 = None
                                                then clock w2 - cache_timeout p + seconds 300
                                                else clock w2)\<rparr>, w2)"
      by (simp add: fill_cache_def backoff_def)
  qed
  from a b c show ?thesis by (simp add: refresh_due)
qed

lemma first_firmware_read:
  "firmware_version (scripted (Some fw_reply # rest)) fresh_poller start_world
     = Some (Inr (Some ''2.6.5''), read_poller, \<lparr>clock = seconds 1, sessions = 1\<rparr>)"
  by (simp add: firmware_version_def read_ble_def retry_loop_first_success scripted_def
      after_session_def fresh_poller_def read_poller_def init_def fw_reply_def decode_version
      start_world_def)

lemma second_session_read:
  "write_read_ble (scripted [a, Some d]) sensor_mac 3 \<lparr>clock = seconds 1, sessions = 1\<rparr>
     = Some (Some d, \<lparr>clock = seconds 2, sessions = 2\<rparr>)"
  by (simp add: write_read_ble_def retry_loop_first_success scripted_def after_session_def
      seconds_def)

lemma read_poller_fields:
  "mac fresh_poller = sensor_mac" "retries fresh_poller = 3"
  "cache_timeout fresh_poller = seconds 600" "fw_version read_poller = Some ''2.6.5''"
  "mac read_poller = sensor_mac" "retries read_poller = 3"
  "cache_timeout read_poller = seconds 600" "fw_last_read read_poller = 0"
  "cache read_poller = None" "last_read read_poller = None"
  by (simp_all add: fresh_poller_def read_poller_def init_def start_world_def)

lemma check_spec_payload:
  "check_data (read_poller\<lparr>cache := Some spec_payload\<rparr>) = Inr (read_poller\<lparr>cache := Some spec_payload\<rparr>)"
  by (simp add: check_data_def read_poller_fields spec_payload_def byte_sum_def str_ge_def)

lemma check_zero_payload:
  "check_data (read_poller\<lparr>cache := Some zero_payload\<rparr>) = Inr (read_poller\<lparr>cache := None\<rparr>)"
  by (simp add: check_data_def read_poller_fields zero_payload_def byte_sum_def str_ge_def)

text \<open>A fill that keeps its payload, and one whose payload is rejected.\<close>

lemma fill_cache_runs:
  "fill_cache (scripted [Some fw_reply, Some spec_payload]) fresh_poller start_world
     = Some (Inr (), read_poller\<lparr>cache := Some spec_payload, last_read := Some (seconds 2)\<rparr>,
             \<lparr>clock = seconds 2, sessions = 2\<rparr>) \<and>
   fill_cache (scripted [Some fw_reply, Some zero_payload]) fresh_poller start_world
     = Some (Inr (), read_poller\<lparr>cache := None, last_read := Some (seconds 2 - seconds 600 + seconds 300)\<rparr>,
             \<lparr>clock = seconds 2, sessions = 2\<rparr>) \<and>
   refresh_required True
     (read_poller\<lparr>cache := None, last_read := Some (seconds 2 - seconds 600 + seconds 300)\<rparr>)
     \<lparr>clock = seconds 303, sessions = 2\<rparr> \<and>
   \<not> refresh_required True
     (read_poller\<lparr>cache := None, last_read := Some (seconds 2 - seconds 600 + seconds 300)\<rparr>)
     \<lparr>clock = seconds 302, sessions = 2\<rparr>"
proof -
  have t: "truthy (Some ''2.6.5'')" by (simp add: truthy_def)
  have one: "fill_cache (scripted [Some fw_reply, Some spec_payload]) fresh_poller start_world
     = Some (Inr (), read_poller\<lparr>cache := Some spec_payload, last_read := Some (seconds 2)\<rparr>,
             \<lparr>clock = seconds 2, sessions = 2\<rparr>)"
    using fill_cache_last_read[OF first_firmware_read,
        of "[Some spec_payload]" "\<lparr>clock = seconds 2, sessions = 2\<rparr>" spec_payload
           "read_poller\<lparr>cache := Some spec_payload\<rparr>"]
      t second_session_read[of "Some fw_reply" spec_payload] check_spec_payload
    by (simp add: read_poller_fields)
  have two: "fill_cache (scripted [Some fw_reply, Some zero_payload]) fresh_poller start_world
     = Some (Inr (), read_poller\<lparr>cache := None, last_read := Some (seconds 2 - seconds 600 + seconds 300)\<rparr>,
             \<lparr>clock = seconds 2, sessions = 2\<rparr>)"
    using fill_cache_last_read[OF first_firmware_read,
        of "[Some zero_payload]" "\<lparr>clock = seconds 2, sessions = 2\<rparr>" zero_payload
           "read_poller\<lparr>cache := None\<rparr>"]
      t second_session_read[of "Some fw_reply" zero_payload] check_zero_payload
    by (simp add: read_poller_fields)
  have three: "refresh_required True
     (read_poller\<lparr>cache := None, last_read := Some (seconds 2 - seconds 600 + seconds 300)\<rparr>)
     \<lparr>clock = seconds 303, sessions = 2\<rparr> \<and>
   \<not> refresh_required True
     (read_poller\<lparr>cache := None, last_read := Some (seconds 2 - seconds 600 + seconds 300)\<rparr>)
     \<lparr>clock = seconds 302, sessions = 2\<rparr>"
    by (simp add: refresh_required_def read_poller_fields seconds_def)
  from one two three show ?thesis by blast
qed

text \<open>
  Claim C5 says that every fill that fails (firmware unavailable, no measurement
  result, validation failure) sets \<^verbatim>\<open>_last_read\<close> to \<open>now - cache_timeout + 300 s\<close>. The
  source does so only where \<^verbatim>\<open>fill_cache\<close> returns. On a new poller with the default
  retry bound: a measurement read of three bytes makes \<^verbatim>\<open>_check_data\<close> raise, an empty
  firmware reply makes \<^verbatim>\<open>firmware_version\<close> raise, and in both cases \<^verbatim>\<open>fill_cache\<close>
  leaves with \<^verbatim>\<open>_last_read\<close> still \<^verbatim>\<open>None\<close>; against a device whose every session
  fails, \<^verbatim>\<open>fill_cache\<close> never returns and records nothing.
\<close>

theorem failed_fill_records_no_backoff:
  "fill_cache (scripted [Some fw_reply, Some short_payload]) fresh_poller start_world
     = Some (Inl IndexError, read_poller\<lparr>cache := Some short_payload\<rparr>,
             \<lparr>clock = seconds 2, sessions = 2\<rparr>) \<and>
   last_read (read_poller\<lparr>cache := Some short_payload\<rparr>) = None \<and>
   fill_cache (scripted [Some []]) fresh_poller start_world
     = Some (Inl IndexError, fresh_poller, \<lparr>clock = seconds 1, sessions = 1\<rparr>) \<and>
   last_read fresh_poller = None \<and>
   fill_cache failing_transport fresh_poller start_world = None"
proof -
  have a: "fill_cache (scripted [Some fw_reply, Some short_payload]) fresh_poller start_world
     = Some (Inl IndexError, read_poller\<lparr>cache := Some short_payload\<rparr>,
             \<lparr>clock = seconds 2, sessions = 2\<rparr>)"
    using first_firmware_read[of "[Some short_payload]"]
      second_session_read[of "Some fw_reply" short_payload]
    by (simp add: fill_cache_def truthy_def read_poller_fields check_data_def short_payload_def)
  have b: "fill_cache (scripted [Some []]) fresh_poller start_world
     = Some (Inl IndexError, fresh_poller, \<lparr>clock = seconds 1, sessions = 1\<rparr>)"
    by (simp add: fill_cache_def firmware_version_def read_ble_def retry_loop_first_success
        scripted_def after_session_def fresh_poller_def init_def start_world_def)
  have "firmware_version failing_transport fresh_poller start_world = None"
    using retry_loop_all_fail[of 3 failing_transport sensor_mac "CharRead 0x38" start_world]
    by (simp add: firmware_version_def read_ble_def failing_transport_def fresh_poller_def
        init_def)
  then have c: "fill_cache failing_transport fresh_poller start_world = None"
    by (simp add: fill_cache_def)
  from a b c show ?thesis by (simp add: read_poller_fields fresh_poller_def init_def)
qed

section \<open>Reading a parameter\<close>



lemma serve_raises_io_error:
  assumes "\<not> cache_usable p" and "fill_cache tr p w = Some (Inr u, p', w')"
  shows "serve tr parameter p w
           = Some (Inl (IOError ''Could not read data from Mi Flora sensor %s'' (mac p')), p', w')"
  using assms by (simp add: serve_def)



text \<open>The equations that evaluate a call on a concrete poller, world and script.\<close>

lemmas run_simps =
  parameter_value_def refresh_required_def fill_cache_def firmware_version_def
  write_read_ble_def read_ble_def retry_loop_first_success scripted_def after_session_def
  check_data_def serve_def cache_usable_def parse_data_def truthy_def backoff_def byte_sum_def
  str_ge_def decode_version
  MI_TEMPERATURE_def MI_LIGHT_def MI_MOISTURE_def MI_CONDUCTIVITY_def MI_BATTERY_def

lemmas input_simps =
  spec_poller_def spec_payload_def zero_payload_def short_payload_def fresh_poller_def
  read_poller_def fw_reply_def init_def start_world_def sensor_mac_def
  seconds_def hours_def

lemma served_at_599:
  "parameter_value (scripted [Some spec_payload]) (spec_poller ''2.6.5'') MI_MOISTURE True
      \<lparr>clock = seconds 599, sessions = 0\<rparr>
    = Some (Inr (PyInt 45), spec_poller ''2.6.5'', \<lparr>clock = seconds 599, sessions = 0\<rparr>)"
  by (simp add: run_simps input_simps)


lemma refreshed_at_601:
  "parameter_value (scripted [Some spec_payload]) (spec_poller ''2.6.5'') MI_MOISTURE True
      \<lparr>clock = seconds 601, sessions = 0\<rparr>
    = Some (Inr (PyInt 45), (spec_poller ''2.6.5'')\<lparr>last_read := Some (seconds 602)\<rparr>,
            \<lparr>clock = seconds 602, sessions = 1\<rparr>)"
  by (simp add: run_simps input_simps)








text \<open>
  The calls of the witness: a poller that holds the example payload, read at time 0,
  asked 599 s and 601 s later; and a poller that holds ten bytes, read at 2 s, asked
  599 s later.
\<close>

lemma answered_at_599:
  "parameter_value (answering spec_payload) (spec_poller ''2.6.5'') MI_MOISTURE True
      \<lparr>clock = seconds 599, sessions = 0\<rparr>
    = Some (Inr (PyInt 45), spec_poller ''2.6.5'', \<lparr>clock = seconds 599, sessions = 0\<rparr>)"
  by (simp add: run_simps input_simps answering_def)

lemma answered_at_601:
  "parameter_value (answering spec_payload) (spec_poller ''2.6.5'') MI_MOISTURE True
      \<lparr>clock = seconds 601, sessions = 0\<rparr>
    = Some (Inr (PyInt 45), (spec_poller ''2.6.5'')\<lparr>last_read := Some (seconds 602)\<rparr>,
            \<lparr>clock = seconds 602, sessions = 1\<rparr>)"
  by (simp add: run_simps input_simps answering_def)

lemma second_fill_at_599:
  "parameter_value (answering spec_payload)
       (read_poller\<lparr>cache := Some ten_payload, last_read := Some (seconds 2)\<rparr>) MI_MOISTURE True
       \<lparr>clock = seconds 601, sessions = 2\<rparr>
     = Some (Inl (IOError ''Could not read data from Mi Flora sensor %s'' sensor_mac),
             read_poller\<lparr>cache := Some spec_payload, last_read := Some (seconds 602)\<rparr>,
             \<lparr>clock = seconds 602, sessions = 3\<rparr>)"
  by (simp add: run_simps input_simps answering_def ten_payload_def)



text \<open>
  A fill that keeps a payload of ten bytes sets \<^verbatim>\<open>_last_read\<close> to \<open>now\<close> as a fill of
  16 bytes does; 599 s later the call fills again, since the cache does not hold 16
  bytes, and raises.
\<close>

lemma short_success_refills:
  "fill_cache (scripted [Some fw_reply, Some ten_payload]) fresh_poller start_world
     = Some (Inr (), read_poller\<lparr>cache := Some ten_payload, last_read := Some (seconds 2)\<rparr>,
             \<lparr>clock = seconds 2, sessions = 2\<rparr>) \<and>
   parameter_value (scripted [Some fw_reply, Some ten_payload, Some spec_payload])
       (read_poller\<lparr>cache := Some ten_payload, last_read := Some (seconds 2)\<rparr>) MI_MOISTURE True
       \<lparr>clock = seconds 601, sessions = 2\<rparr>
     = Some (Inl (IOError ''Could not read data from Mi Flora sensor %s'' sensor_mac),
             read_poller\<lparr>cache := Some spec_payload, last_read := Some (seconds 602)\<rparr>,
             \<lparr>clock = seconds 602, sessions = 3\<rparr>)"
  by (simp add: run_simps input_simps ten_payload_def)

section \<open>Payloads too short to validate\<close>

lemma check_data_short:
  assumes "length c \<le> 7"
  shows "check_data (p\<lparr>cache := Some c\<rparr>) = Inl IndexError"
  using assms by (simp add: check_data_def)

lemma check_data_valid:
  assumes "check_data p = Inr p'" and "cache p' = Some c"
  shows "valid_payload c"
  using assms
  by (auto simp: check_data_def valid_payload_def split: option.splits if_splits)

lemma fill_cache_short:
  assumes "firmware_version tr p w = Some (Inr v, p1, w1)" and "truthy v"
    and "write_read_ble tr (mac p) (retries p) w1 = Some (Some c, w2)" and "length c \<le> 7"
  shows "fill_cache tr p w = Some (Inl IndexError, p1\<lparr>cache := Some c\<rparr>, w2)"
  using assms firmware_version_frame[OF assms(1)]
  by (simp add: fill_cache_def check_data_short)

text \<open>
  Claim C10. For a payload of one to seven bytes \<^verbatim>\<open>_check_data\<close> raises \<^verbatim>\<open>IndexError\<close>
  at \<^verbatim>\<open>self._cache[7]\<close> instead of rejecting it. When the firmware version is
  available and the measurement read returns such a payload, \<^verbatim>\<open>fill_cache\<close> leaves with
  that exception, the payload still in the cache, and so does \<^verbatim>\<open>parameter_value\<close> for a
  parameter other than the battery whenever it fills the cache (a refresh is required,
  or the cache does not hold 16 bytes). The exception is not the \<^verbatim>\<open>IOError\<close> of
  \<^verbatim>\<open>parameter_value\<close>.
\<close>

theorem short_payload_raises:
  assumes "1 \<le> length c" and "length c \<le> 7"
  shows
   "check_data (p\<lparr>cache := Some c\<rparr>) = Inl IndexError \<and>
    (firmware_version tr p w = Some (Inr v, p1, w1) \<and> truthy v \<and>
     write_read_ble tr (mac p) (retries p) w1 = Some (Some c, w2) \<longrightarrow>
       fill_cache tr p w = Some (Inl IndexError, p1\<lparr>cache := Some c\<rparr>, w2) \<and>
       (parameter \<noteq> MI_BATTERY \<and> (refresh_required read_cached p w \<or> \<not> cache_usable p) \<longrightarrow>
          parameter_value tr p parameter read_cached w
            = Some (Inl IndexError, p1\<lparr>cache := Some c\<rparr>, w2))) \<and>
    (\<forall>msg m. IndexError \<noteq> IOError msg m)"
proof -
  have a: "check_data (p\<lparr>cache := Some c\<rparr>) = Inl IndexError"
    using assms(2) by (rule check_data_short)
  have b: "firmware_version tr p w = Some (Inr v, p1, w1) \<and> truthy v \<and>
     write_read_ble tr (mac p) (retries p) w1 = Some (Some c, w2) \<longrightarrow>
       fill_cache tr p w = Some (Inl IndexError, p1\<lparr>cache := Some c\<rparr>, w2) \<and>
       (parameter \<noteq> MI_BATTERY \<and> (refresh_required read_cached p w \<or> \<not> cache_usable p) \<longrightarrow>
          parameter_value tr p parameter read_cached w
            = Some (Inl IndexError, p1\<lparr>cache := Some c\<rparr>, w2))"
  proof
    assume h: "firmware_version tr p w = Some (Inr v, p1, w1) \<and> truthy v \<and>
     write_read_ble tr (mac p) (retries p) w1 = Some (Some c, w2)"
    then have fc: "fill_cache tr p w = Some (Inl IndexError, p1\<lparr>cache := Some c\<rparr>, w2)"
      using fill_cache_short[of tr p w v p1 w1 c w2] assms(2) by blast
    have "parameter_value tr p parameter read_cached w
            = Some (Inl IndexError, p1\<lparr>cache := Some c\<rparr>, w2)"
      if "parameter \<noteq> MI_BATTERY \<and> (refresh_required read_cached p w \<or> \<not> cache_usable p)"
      using that fc by (auto simp: parameter_value_def serve_def)
    with fc show "fill_cache tr p w = Some (Inl IndexError, p1\<lparr>cache := Some c\<rparr>, w2) \<and>
       (parameter \<noteq> MI_BATTERY \<and> (refresh_required read_cached p w \<or> \<not> cache_usable p) \<longrightarrow>
          parameter_value tr p parameter read_cached w
            = Some (Inl IndexError, p1\<lparr>cache := Some c\<rparr>, w2))"
      by blast
  qed
  from a b show ?thesis by simp
qed

theorem short_payload_raises_witness:
  "check_data (read_poller\<lparr>cache := Some short_payload\<rparr>) = Inl IndexError \<and>
   fill_cache (scripted [Some fw_reply, Some short_payload]) fresh_poller start_world
     = Some (Inl IndexError, read_poller\<lparr>cache := Some short_payload\<rparr>,
             \<lparr>clock = seconds 2, sessions = 2\<rparr>) \<and>
   parameter_value (scripted [Some fw_reply, Some short_payload]) fresh_poller MI_TEMPERATURE True
       start_world
     = Some (Inl IndexError, read_poller\<lparr>cache := Some short_payload\<rparr>,
             \<lparr>clock = seconds 2, sessions = 2\<rparr>)"
proof -
  have l: "1 \<le> length short_payload" "length short_payload \<le> 7"
    by (simp_all add: short_payload_def)
  have t: "truthy (Some ''2.6.5'')" by (simp add: truthy_def)
  have nb: "MI_TEMPERATURE \<noteq> MI_BATTERY" by (simp add: MI_TEMPERATURE_def MI_BATTERY_def)
  have rr: "refresh_required True fresh_poller start_world"
    by (simp add: refresh_required_def read_poller_fields fresh_poller_def init_def)
  from short_payload_raises[OF l, of read_poller]
  have one: "check_data (read_poller\<lparr>cache := Some short_payload\<rparr>) = Inl IndexError"
    by blast
  from short_payload_raises[OF l, of fresh_poller "scripted [Some fw_reply, Some short_payload]"
      start_world "Some ''2.6.5''" read_poller "\<lparr>clock = seconds 1, sessions = 1\<rparr>"
      "\<lparr>clock = seconds 2, sessions = 2\<rparr>" MI_TEMPERATURE True]
    first_firmware_read[of "[Some short_payload]"]
    second_session_read[of "Some fw_reply" short_payload] t nb rr
  have two: "fill_cache (scripted [Some fw_reply, Some short_payload]) fresh_poller start_world
     = Some (Inl IndexError, read_poller\<lparr>cache := Some short_payload\<rparr>,
             \<lparr>clock = seconds 2, sessions = 2\<rparr>) \<and>
   parameter_value (scripted [Some fw_reply, Some short_payload]) fresh_poller MI_TEMPERATURE True
       start_world
     = Some (Inl IndexError, read_poller\<lparr>cache := Some short_payload\<rparr>,
             \<lparr>clock = seconds 2, sessions = 2\<rparr>)"
    by (simp add: read_poller_fields)
  from one two show ?thesis by blast
qed

text \<open>
  Claim C3 says that when the cache does not hold 16 bytes after the locked block,
  \<^verbatim>\<open>parameter_value\<close> fills once more and raises \<^verbatim>\<open>IOError\<close> whatever that fill gives, and
  that no other exception reaches the caller. Here the first fill reads an all-zero
  frame, which is rejected, and the second fill reads three bytes: the call leaves
  with the \<^verbatim>\<open>IndexError\<close> of \<^verbatim>\<open>_check_data\<close>, and the \<^verbatim>\<open>raise IOError\<close> is not reached.
\<close>

theorem second_fill_raises_index_error:
  "parameter_value (scripted [Some fw_reply, Some zero_payload, Some short_payload])
       fresh_poller MI_TEMPERATURE True start_world
     = Some (Inl IndexError,
             read_poller\<lparr>cache := Some short_payload,
                         last_read := Some (seconds 2 - seconds 600 + seconds 300)\<rparr>,
             \<lparr>clock = seconds 3, sessions = 3\<rparr>)"
  by (simp add: run_simps input_simps)

text \<open>
  Claim C9 says that in every state public operations can reach, the cached payload
  is one that passed validation. One call of \<^verbatim>\<open>parameter_value\<close> on a new poller, with
  a measurement read of three bytes, leaves the three bytes in the cache: the
  assignment to \<^verbatim>\<open>_cache\<close> comes before \<^verbatim>\<open>_check_data\<close>, which raises on them.
\<close>

theorem unvalidated_payload_cached:
  "parameter_value (scripted [Some fw_reply, Some short_payload]) fresh_poller MI_MOISTURE True
       start_world
     = Some (Inl IndexError, read_poller\<lparr>cache := Some short_payload\<rparr>,
             \<lparr>clock = seconds 2, sessions = 2\<rparr>) \<and>
   cache (read_poller\<lparr>cache := Some short_payload\<rparr>) = Some short_payload \<and>
   last_read (read_poller\<lparr>cache := Some short_payload\<rparr>) = None \<and>
   check_data (read_poller\<lparr>cache := Some short_payload\<rparr>) = Inl IndexError \<and>
   \<not> cache_invariant (read_poller\<lparr>cache := Some short_payload\<rparr>)"
  by (simp add: run_simps input_simps cache_invariant_def valid_payload_def)

text \<open>
  Where no exception is raised the invariant is kept: a new poller has it, and
  \<^verbatim>\<open>firmware_version\<close> and a \<^verbatim>\<open>fill_cache\<close> that returns keep it, the latter setting
  \<^verbatim>\<open>_last_read\<close>.
\<close>

lemma init_invariant: "cache_invariant (init m t r w) \<and> last_read (init m t r w) = None"
  by (simp add: cache_invariant_def init_def)

lemma fill_cache_invariant:
  assumes "cache_invariant p" and "fill_cache tr p w = Some (Inr u, p', w')"
  shows "cache_invariant p' \<and> last_read p' \<noteq> None"
proof -
  from assms(2) obtain v p1 w1 where fv: "firmware_version tr p w = Some (Inr v, p1, w1)"
    by (auto simp: fill_cache_def split: option.splits sum.splits)
  note fr = firmware_version_frame[OF fv]
  show ?thesis
  proof (cases "truthy v")
    case False
    with assms fv fr show ?thesis
      by (auto simp: fill_cache_def cache_invariant_def split: option.splits)
  next
    case True
    with assms(2) fv obtain data w2 p2 where
      cd: "check_data (p1\<lparr>cache := data\<rparr>) = Inr p2" and
      p': "p' = p2\<lparr>last_read := Some (if cache p2 = None then backoff p2 w2 else clock w2)\<rparr>"
      by (auto simp: fill_cache_def split: option.splits sum.splits if_splits)
    from check_data_valid[OF cd] p' show ?thesis
      by (auto simp: cache_invariant_def split: option.splits)
  qed
qed

lemma firmware_version_invariant:
  assumes "cache_invariant p" and "firmware_version tr p w = Some (r, p', w')"
  shows "cache_invariant p'"
  using assms firmware_version_frame[OF assms(2)]
  by (auto simp: cache_invariant_def split: option.splits)

end
